theory Spec2Isabelle
  imports Main "HOL-Library.Sublist"
begin

section \<open>The products screen: data\<close>

text \<open>
  Modelled from the spec: the \<open>Product\<close> type is declared in
  \<open>app/services/productService\<close>, which is not among the sources. The screen reads
  \<open>item.id\<close>, \<open>item.name\<close>, \<open>item.price\<close> and \<open>item.description\<close>; the spec's data
  model gives the four fields, an identifier, a display name, a numeric price and a
  free-text description. Only \<open>name\<close> takes part in the logic of the screen.
\<close>

record Product =
  id_Product :: int
  name :: string
  price :: int
  description :: string

text \<open>
  The arguments of the two console calls of \<open>fetchProducts\<close>:
  \<open>console.log("Fetched products:", fetchedProducts)\<close> and
  \<open>console.error('Error fetching products:', err)\<close>. The type \<open>'e\<close> is the type of
  whatever \<open>getProducts\<close> rejects with.
\<close>

datatype 'e console_entry =
  ConsoleLog string "Product list"
| ConsoleError string 'e

text \<open>
  The three \<open>useState\<close> cells of \<open>ProductsScreen\<close> (lines 9 to 11), and the console
  the component writes to. The console is not component state: no line of the
  component reads it.
\<close>

record 'e ProductsScreen =
  products :: "Product list"
  loading :: bool
  error :: "string option"
  console :: "'e console_entry list"

text \<open>The initial values given to \<open>useState\<close>: \<open>[]\<close>, \<open>false\<close>, \<open>null\<close>.\<close>

definition initial :: "'e ProductsScreen" where
  "initial = \<lparr>products = [], loading = False, error = None, console = []\<rparr>"

section \<open>Strings\<close>

text \<open>
  A JavaScript string is a sequence of UTF-16 code units; a \<open>char\<close> here is a code
  unit below 256 (Basic Latin and Latin-1 Supplement). On these
  \<open>String.prototype.toLowerCase\<close> works unit by unit: the letters \<open>A\<close> to \<open>Z\<close>
  (65 to 90) and the Latin-1 capitals (192 to 214 and 216 to 222; 215 is the
  multiplication sign) move up by 32, every other unit stays.

  The operations below do not fix this function. They take the lower-casing as their
  first argument \<open>lower\<close>, which stands for \<open>String.prototype.toLowerCase\<close> of the
  runtime, and the general theorems hold for every function in its place.
  \<open>toLowerCase\<close> is the instance used where a concrete screen is computed.
\<close>

definition toLowerCase_char :: "char \<Rightarrow> char" where
  "toLowerCase_char c =
     (let n = (of_char c :: nat)
      in if (65 \<le> n \<and> n \<le> 90) \<or> (192 \<le> n \<and> n \<le> 214) \<or> (216 \<le> n \<and> n \<le> 222)
         then char_of (n + 32) else c)"

definition toLowerCase :: "string \<Rightarrow> string" where
  "toLowerCase s = map toLowerCase_char s"

text \<open>
  \<open>String.prototype.includes\<close>: \<open>includes_str s t\<close> is \<open>s.includes(t)\<close>, true when \<open>t\<close>
  occurs in \<open>s\<close> starting at some position (the empty string occurs everywhere).
\<close>

fun includes_str :: "string \<Rightarrow> string \<Rightarrow> bool" where
  "includes_str [] t = (t = [])"
| "includes_str (c # cs) t = (prefix t (c # cs) \<or> includes_str cs t)"

text \<open>
  The spec's words for the filter: the name contains the query as a
  case-insensitive substring, that is, some stretch of the name is the query once
  both are lower-cased.
\<close>

definition contains_ci :: "(string \<Rightarrow> string) \<Rightarrow> string \<Rightarrow> string \<Rightarrow> bool" where
  "contains_ci lower nm query =
     (\<exists>before after. lower nm = before @ lower query @ after)"

section \<open>The operations of the screen\<close>

text \<open>
  \<open>fetchProducts\<close> is an async function. Up to its \<open>await\<close> it runs at once
  (lines 16 and 17); the rest runs when the promise of \<open>getProducts()\<close> settles
  (lines 19 to 27), with \<open>Inr fetchedProducts\<close> for a fulfilled promise and \<open>Inl err\<close>
  for a rejected one. The \<open>finally\<close> block runs on both paths. Every setter is called
  with a value, never with an updater function, so each call overwrites its cell.
\<close>

definition fetchProducts_begin :: "'e ProductsScreen \<Rightarrow> 'e ProductsScreen" where
  "fetchProducts_begin s = s\<lparr>loading := True, error := None\<rparr>"

definition fetchProducts_settle ::
    "'e + Product list \<Rightarrow> 'e ProductsScreen \<Rightarrow> 'e ProductsScreen" where
  "fetchProducts_settle r s =
     (case r of
        Inr fetchedProducts \<Rightarrow>
          s\<lparr>console := console s @ [ConsoleLog ''Fetched products:'' fetchedProducts],
            products := fetchedProducts,
            loading := False\<rparr>
      | Inl err \<Rightarrow>
          s\<lparr>error := Some ''Failed to fetch products'',
            console := console s @ [ConsoleError ''Error fetching products:'' err],
            loading := False\<rparr>)"

text \<open>One call of \<open>fetchProducts\<close> with nothing else running in between.\<close>

definition fetchProducts :: "'e + Product list \<Rightarrow> 'e ProductsScreen \<Rightarrow> 'e ProductsScreen" where
  "fetchProducts r s = fetchProducts_settle r (fetchProducts_begin s)"

text \<open>
  \<open>handleSearch\<close> (lines 35 to 40): the filtered list is stored back into \<open>products\<close>.
  The \<open>products\<close> of line 36 is the list of the render that created the handler; a call
  is made from the current render, so \<open>s\<close> is the state of that render.
\<close>

definition handleSearch ::
    "(string \<Rightarrow> string) \<Rightarrow> string \<Rightarrow> 'e ProductsScreen \<Rightarrow> 'e ProductsScreen" where
  "handleSearch lower query s =
     (let filtered =
            filter (\<lambda>product. includes_str (lower (name product)) (lower query))
              (products s)
      in s\<lparr>products := filtered\<rparr>)"

section \<open>What the screen shows\<close>

text \<open>
  The four \<open>return\<close> statements of the component, in the order of the source
  (lines 59, 76, 89, 98): the skeleton list, the error text with its retry button,
  the text \<open>No products found.\<close>, and the grid over \<open>products\<close>. They are named after
  the spec's view states. The component keeps one list, so \<open>Loaded\<close> carries the one
  list that the grid shows.
\<close>

datatype ViewState = Loading | Error string | Empty | Loaded "Product list"

text \<open>\<open>if (error)\<close> on a \<open>string | null\<close>: \<open>null\<close> and the empty string are falsy.\<close>

fun truthy :: "string option \<Rightarrow> bool" where
  "truthy None = False"
| "truthy (Some m) = (m \<noteq> [])"

definition render :: "'e ProductsScreen \<Rightarrow> ViewState" where
  "render s =
     (if loading s then Loading
      else if truthy (error s) then Error (case error s of Some m \<Rightarrow> m | None \<Rightarrow> [])
      else if length (products s) = 0 then Empty
      else Loaded (products s))"

section \<open>The products of the spec's examples\<close>

definition chair :: Product where
  "chair = \<lparr>id_Product = 1, name = ''Chair'', price = 50, description = ''x''\<rparr>"

definition table :: Product where
  "table = \<lparr>id_Product = 2, name = ''Table'', price = 120, description = ''y''\<rparr>"

section \<open>Strings: the filter predicate is the spec's\<close>

lemma includes_str_sublist: "includes_str s t \<longleftrightarrow> sublist t s"
  by (induction s) (simp_all add: sublist_Cons_right)

lemma includes_str_contains_ci:
  "includes_str (lower nm) (lower query) \<longleftrightarrow> contains_ci lower nm query"
  by (simp add: includes_str_sublist sublist_def contains_ci_def)

lemma includes_str_empty: "includes_str s []"
  by (induction s) simp_all

lemma toLowerCase_empty: "toLowerCase [] = []"
  by (simp add: toLowerCase_def)

lemma toLowerCase_examples:
  "toLowerCase ''Chair'' = ''chair''"
  "toLowerCase ''Table'' = ''table''"
  "toLowerCase ''cha'' = ''cha''"
  "toLowerCase ''CHA'' = ''cha''"
  "toLowerCase ''a'' = ''a''"
  by code_simp+

text \<open>Capital E with acute (201) goes to its small letter (233), as in the runtime.\<close>

lemma toLowerCase_latin1_example:
  "toLowerCase (''CAF'' @ [char_of (201 :: nat)]) = ''caf'' @ [char_of (233 :: nat)]"
  by code_simp

text \<open>Queries that differ only in case give the same screen.\<close>

lemma lower_same_filter:
  assumes "lower q = lower q'"
  shows "handleSearch lower q s = handleSearch lower q' s"
  using assms by (simp add: handleSearch_def)

section \<open>States the screen can be in\<close>

text \<open>
  The first render happens on the initial cells; the effect of line 30 then calls
  \<open>fetchProducts\<close>. After that the cells change only when \<open>fetchProducts\<close> is called
  again (the retry button), when a pending call settles, and when the header reports
  a search. Settling is allowed at any moment here, which covers every order in which
  pending calls can settle.
\<close>

inductive reachable :: "(string \<Rightarrow> string) \<Rightarrow> 'e ProductsScreen \<Rightarrow> bool"
  for lower :: "string \<Rightarrow> string" where
  first_render: "reachable lower initial"
| refresh: "reachable lower s \<Longrightarrow> reachable lower (fetchProducts_begin s)"
| settle: "reachable lower s \<Longrightarrow> reachable lower (fetchProducts_settle r s)"
| search: "reachable lower s \<Longrightarrow> reachable lower (handleSearch lower query s)"


lemma render_Loading_iff: "render s = Loading \<longleftrightarrow> loading s"
  by (simp add: render_def)

text \<open>The error cell only ever holds \<open>null\<close> or the one message of line 23.\<close>

lemma reachable_error_values:
  assumes "reachable lower s"
  shows "error s = None \<or> error s = Some ''Failed to fetch products''"
  using assms
proof (induction rule: reachable.induct)
  case (settle s r)
  then show ?case by (cases r) (auto simp add: fetchProducts_settle_def)
qed (auto simp add: initial_def fetchProducts_begin_def handleSearch_def)

text \<open>A run of searches keeps the products that match every query of the run.\<close>

lemma products_fold_handleSearch:
  "products (fold (handleSearch lower) qs s) =
     filter (\<lambda>p. \<forall>q \<in> set qs. contains_ci lower (name p) q) (products s)"
proof (induction qs arbitrary: s)
  case Nil
  show ?case by simp
next
  case (Cons q qs)
  have "products (fold (handleSearch lower) (q # qs) s) =
          filter (\<lambda>p. \<forall>q' \<in> set qs. contains_ci lower (name p) q')
            (products (handleSearch lower q s))"
    using Cons.IH [of "handleSearch lower q s"] by simp
  also have "products (handleSearch lower q s)
               = filter (\<lambda>p. contains_ci lower (name p) q) (products s)"
    by (simp add: handleSearch_def includes_str_contains_ci)
  finally show ?case
    by (simp add: conj_commute)
qed

section \<open>States used as concrete inputs\<close>

text \<open>
  The screen while the first fetch is pending; the screen after that fetch brought
  the spec's two products; and the screen after \<open>fetchProducts\<close> was called twice
  before either call settled and the first of the two to settle failed, so that one
  call is still pending.
\<close>

definition mounted :: "string ProductsScreen" where
  "mounted = fetchProducts_begin initial"

definition fetched_chair_table :: "string ProductsScreen" where
  "fetched_chair_table = fetchProducts (Inr [chair, table]) initial"


lemma fetched_chair_table_fields:
  "products fetched_chair_table = [chair, table]"
  "loading fetched_chair_table = False"
  "error fetched_chair_table = None"
  by (simp_all add: fetched_chair_table_def fetchProducts_def fetchProducts_begin_def
      fetchProducts_settle_def initial_def)

lemma chair_table_names: "name chair = ''Chair''" "name table = ''Table''" "chair \<noteq> table"
  by (simp_all add: chair_def table_def)


lemma render_mounted: "render mounted = Loading"
  by (simp add: mounted_def render_def fetchProducts_begin_def)



section \<open>Searching\<close>

text \<open>
  Claim C1, as the code has it. The spec says that \<open>search(query)\<close> leaves the list set
  by the last successful fetch unchanged and only derives a second, visible list. The
  component has one list: \<open>handleSearch\<close> leaves the loading flag, the error message
  and the console as they are and replaces \<open>products\<close> by a subsequence of itself, so
  nothing is added, altered or reordered, and the list stays what it was exactly when
  every product in it matches the query. This holds for every lower-casing function.
\<close>

theorem handleSearch_frame:
  "loading (handleSearch lower q s) = loading s \<and>
   error (handleSearch lower q s) = error s \<and>
   console (handleSearch lower q s) = console s \<and>
   subseq (products (handleSearch lower q s)) (products s) \<and>
   (products (handleSearch lower q s) = products s \<longleftrightarrow>
      (\<forall>p \<in> set (products s). contains_ci lower (name p) q))"
  by (simp add: handleSearch_def includes_str_contains_ci filter_id_conv)

text \<open>
  Both products of the fetched list have an \<open>a\<close> in their name, so the search for
  \<open>a\<close> keeps the list.
\<close>

theorem handleSearch_frame_witness:
  "products (handleSearch toLowerCase ''a'' fetched_chair_table)
     = products fetched_chair_table \<and>
   subseq (products (handleSearch toLowerCase ''a'' fetched_chair_table))
     (products fetched_chair_table)"
proof -
  have all: "\<forall>p \<in> set (products fetched_chair_table). contains_ci toLowerCase (name p) ''a''"
    by (simp add: fetched_chair_table_fields chair_table_names toLowerCase_examples
        includes_str_contains_ci [symmetric])
  with handleSearch_frame [of toLowerCase "''a''" fetched_chair_table] show ?thesis
    by simp
qed

text \<open>
  Claim C1 as the spec states it fails: after the fetch of Chair and Table the screen
  shows both, and the search for \<open>cha\<close> overwrites the fetched list with Chair alone.
\<close>

theorem handleSearch_overwrites_fetched_list:
  "render fetched_chair_table = Loaded [chair, table] \<and>
   products (handleSearch toLowerCase ''cha'' fetched_chair_table) = [chair] \<and>
   products (handleSearch toLowerCase ''cha'' fetched_chair_table)
     \<noteq> products fetched_chair_table"
  by (simp add: render_def handleSearch_def fetched_chair_table_fields chair_table_names
      toLowerCase_examples)

text \<open>
  Claim C2, as the code has it. \<open>search(query)\<close> sets the list the grid shows to exactly
  the products of the list currently held whose name contains the query as a
  case-insensitive substring, in their order. Directly after a successful fetch the
  list held is the fetched one, so the result is the matching subsequence of the
  fetched list. The empty query (which lower-cases to the empty string) leaves the
  screen as it is: it keeps the list currently held and does not bring back products
  that an earlier search dropped. This holds for every lower-casing function.
\<close>

theorem handleSearch_filters_current_list:
  "products (handleSearch lower q s)
     = filter (\<lambda>p. contains_ci lower (name p) q) (products s) \<and>
   products (handleSearch lower q (fetchProducts (Inr ps) s))
     = filter (\<lambda>p. contains_ci lower (name p) q) ps \<and>
   (lower [] = [] \<longrightarrow> handleSearch lower [] s = s)"
  by (simp add: handleSearch_def fetchProducts_def fetchProducts_settle_def
      includes_str_contains_ci includes_str_empty)

theorem handleSearch_filters_current_list_witness:
  "products (handleSearch toLowerCase ''cha'' fetched_chair_table) = [chair] \<and>
   handleSearch toLowerCase [] fetched_chair_table = fetched_chair_table"
  using handleSearch_filters_current_list [of toLowerCase "''cha''" fetched_chair_table]
  by (simp add: fetched_chair_table_fields chair_table_names toLowerCase_examples
      toLowerCase_empty includes_str_contains_ci [symmetric])

text \<open>
  Claim C2 as the spec states it fails: after the fetch of Chair and Table and the
  search for \<open>cha\<close> the screen is in its grid state showing Chair; the empty search that
  follows yields Chair, not the two products of the last successful fetch (both match
  the empty query, as every name does).
\<close>

theorem empty_search_does_not_restore:
  "render (handleSearch toLowerCase ''cha'' fetched_chair_table) = Loaded [chair] \<and>
   products (handleSearch toLowerCase [] (handleSearch toLowerCase ''cha'' fetched_chair_table))
     = [chair] \<and>
   products (handleSearch toLowerCase [] (handleSearch toLowerCase ''cha'' fetched_chair_table))
     \<noteq> [chair, table]"
  by (simp add: render_def handleSearch_def fetched_chair_table_fields chair_table_names
      toLowerCase_examples toLowerCase_empty includes_str_empty)

text \<open>
  Claim C8. Searching twice in a row with the same query gives the same screen as
  searching once, in every state and so in every grid state.
\<close>

theorem handleSearch_idempotent:
  "handleSearch lower q (handleSearch lower q s) = handleSearch lower q s"
  by (simp add: handleSearch_def)

theorem handleSearch_idempotent_witness:
  "handleSearch toLowerCase ''cha'' (handleSearch toLowerCase ''cha'' fetched_chair_table)
     = handleSearch toLowerCase ''cha'' fetched_chair_table \<and>
   products (handleSearch toLowerCase ''cha'' fetched_chair_table) = [chair]"
  using handleSearch_idempotent [of toLowerCase "''cha''" fetched_chair_table]
  by (simp add: handleSearch_def fetched_chair_table_fields chair_table_names
      toLowerCase_examples)

text \<open>
  Claim C6. In a state that is not a grid state (the skeleton, the error panel or the
  empty message is shown) \<open>search(query)\<close> leaves what is shown as it is: the same
  view state with the same message, and no grid appears. \<open>handleSearch\<close> has no
  failing path.
\<close>

theorem handleSearch_outside_Loaded:
  assumes "\<forall>ps. render s \<noteq> Loaded ps"
  shows "render (handleSearch lower q s) = render s"
proof (cases "loading s \<or> truthy (error s)")
  case True
  then show ?thesis by (auto simp add: render_def handleSearch_def)
next
  case False
  with assms have "products s = []"
    by (auto simp add: render_def split: if_splits)
  with False show ?thesis by (simp add: render_def handleSearch_def)
qed

theorem handleSearch_outside_Loaded_witness:
  "render mounted = Loading \<and>
   render (handleSearch toLowerCase ''anything'' mounted) = Loading \<and>
   render (fetchProducts (Inl ''timeout'') mounted) = Error ''Failed to fetch products'' \<and>
   render (handleSearch toLowerCase ''anything'' (fetchProducts (Inl ''timeout'') mounted))
     = Error ''Failed to fetch products'' \<and>
   render (fetchProducts (Inr []) mounted) = Empty \<and>
   render (handleSearch toLowerCase ''anything'' (fetchProducts (Inr []) mounted)) = Empty"
proof -
  have l: "render mounted = Loading"
    by (rule render_mounted)
  have e: "render (fetchProducts (Inl ''timeout'') mounted) = Error ''Failed to fetch products''"
    by (simp add: render_def fetchProducts_def fetchProducts_begin_def fetchProducts_settle_def)
  have m: "render (fetchProducts (Inr []) mounted) = Empty"
    by (simp add: render_def fetchProducts_def fetchProducts_begin_def fetchProducts_settle_def)
  from l have "\<forall>ps. render mounted \<noteq> Loaded ps" by simp
  from handleSearch_outside_Loaded [OF this, of toLowerCase "''anything''"] l
  have 1: "render (handleSearch toLowerCase ''anything'' mounted) = Loading" by simp
  from e have "\<forall>ps. render (fetchProducts (Inl ''timeout'') mounted) \<noteq> Loaded ps" by simp
  from handleSearch_outside_Loaded [OF this, of toLowerCase "''anything''"] e
  have 2: "render (handleSearch toLowerCase ''anything'' (fetchProducts (Inl ''timeout'') mounted))
             = Error ''Failed to fetch products''" by simp
  from m have "\<forall>ps. render (fetchProducts (Inr []) mounted) \<noteq> Loaded ps" by simp
  from handleSearch_outside_Loaded [OF this, of toLowerCase "''anything''"] m
  have 3: "render (handleSearch toLowerCase ''anything'' (fetchProducts (Inr []) mounted)) = Empty"
    by simp
  from l e m 1 2 3 show ?thesis by simp
qed

section \<open>Fetching\<close>

text \<open>
  Claim C7. Every call of \<open>fetchProducts\<close>, from any state, shows the skeleton and
  clears the error message before the fetch settles; from the error panel nothing of
  the message is left.
\<close>

theorem fetchProducts_begin_Loading:
  "render (fetchProducts_begin s) = Loading \<and>
   loading (fetchProducts_begin s) \<and>
   error (fetchProducts_begin s) = None"
  by (simp add: render_def fetchProducts_begin_def)

theorem fetchProducts_begin_Loading_witness:
  "render (fetchProducts (Inl ''timeout'') mounted) = Error ''Failed to fetch products'' \<and>
   render (fetchProducts_begin (fetchProducts (Inl ''timeout'') mounted)) = Loading \<and>
   error (fetchProducts_begin (fetchProducts (Inl ''timeout'') mounted)) = None"
  using fetchProducts_begin_Loading [of "fetchProducts (Inl ''timeout'') mounted"]
  by (simp add: render_def fetchProducts_def fetchProducts_begin_def fetchProducts_settle_def)







text \<open>
  Claim C5. When a fetch fails, with whatever error and in whatever state, the screen
  shows the error panel with the fixed, non-empty message \<open>Failed to fetch products\<close>.
  The message and all three cells of the component are the same for every error; the
  error itself goes to the console, in one \<open>console.error\<close> entry, and nowhere else.
\<close>

theorem fetch_failure_Error:
  "render (fetchProducts_settle (Inl e) s) = Error ''Failed to fetch products'' \<and>
   ''Failed to fetch products'' \<noteq> [] \<and>
   console (fetchProducts_settle (Inl e) s)
     = console s @ [ConsoleError ''Error fetching products:'' e] \<and>
   products (fetchProducts_settle (Inl e) s) = products (fetchProducts_settle (Inl e') s) \<and>
   loading (fetchProducts_settle (Inl e) s) = loading (fetchProducts_settle (Inl e') s) \<and>
   error (fetchProducts_settle (Inl e) s) = error (fetchProducts_settle (Inl e') s)"
  by (simp add: render_def fetchProducts_settle_def)

theorem fetch_failure_Error_witness:
  "render (fetchProducts_settle (Inl ''timeout'') mounted) = Error ''Failed to fetch products'' \<and>
   console (fetchProducts_settle (Inl ''timeout'') mounted)
     = [ConsoleError ''Error fetching products:'' ''timeout'']"
  using fetch_failure_Error [of "''timeout''" mounted]
  by (simp add: mounted_def fetchProducts_begin_def initial_def)

text \<open>
  Claim C10. A fetch that fails leaves the product list as it was before the fetch
  began: neither the start of \<open>fetchProducts\<close> nor its failure path writes \<open>products\<close>.
\<close>

theorem fetch_failure_keeps_products:
  "products (fetchProducts_begin s) = products s \<and>
   products (fetchProducts_settle (Inl e) s) = products s \<and>
   products (fetchProducts (Inl e) s) = products s"
  by (simp add: fetchProducts_def fetchProducts_begin_def fetchProducts_settle_def)

theorem fetch_failure_keeps_products_witness:
  "products (fetchProducts (Inl ''timeout'') fetched_chair_table) = [chair, table]"
  using fetch_failure_keeps_products [of fetched_chair_table "''timeout''"]
  by (simp add: fetched_chair_table_fields)

section \<open>Two fetches pending at once\<close>

text \<open>
  Claim C9, as the code has it. \<open>fetchProducts\<close> is called twice before either call
  settles; \<open>r2\<close> settles first and \<open>r1\<close> last, whichever was issued first. Nothing is
  cancelled or put in order. When the call that settles first succeeded, or the call
  that settles last fails, the screen ends as if the last call alone had run. A
  success that settles last always leaves its list in \<open>products\<close>; but it does not
  clear the message of a failure that settled before it, so then the error panel
  stays.
\<close>

theorem overlapping_fetches:
  "render (fetchProducts_settle r1
      (fetchProducts_settle (Inr ps2) (fetchProducts_begin (fetchProducts_begin s))))
     = render (fetchProducts r1 s) \<and>
   render (fetchProducts_settle (Inl e1)
      (fetchProducts_settle r2 (fetchProducts_begin (fetchProducts_begin s))))
     = render (fetchProducts (Inl e1) s) \<and>
   products (fetchProducts_settle (Inr ps1)
      (fetchProducts_settle r2 (fetchProducts_begin (fetchProducts_begin s)))) = ps1 \<and>
   render (fetchProducts_settle (Inr ps1)
      (fetchProducts_settle (Inl e2) (fetchProducts_begin (fetchProducts_begin s))))
     = Error ''Failed to fetch products''"
  by (cases r1; cases r2)
    (simp_all add: render_def fetchProducts_def fetchProducts_begin_def fetchProducts_settle_def)

text \<open>The stale overwrite: Table settles first, Chair last, and Chair is shown.\<close>

theorem overlapping_fetches_witness:
  "render (fetchProducts_settle (Inr [chair])
      (fetchProducts_settle (Inr [table]) (fetchProducts_begin mounted)))
     = Loaded [chair]"
  using overlapping_fetches [of "Inr [chair]" "[table]" "initial :: string ProductsScreen"]
  by (simp add: mounted_def render_def fetchProducts_def fetchProducts_begin_def
      fetchProducts_settle_def)

text \<open>
  Claim C9 as the spec states it fails: when the call that settles first fails and the
  call that settles last succeeds with Chair, the screen ends in the error panel, not
  in the grid over Chair that the last call alone gives.
\<close>

theorem earlier_failure_survives_later_success:
  "render (fetchProducts_settle (Inr [chair])
      (fetchProducts_settle (Inl ''timeout'') (fetchProducts_begin mounted)))
     = Error ''Failed to fetch products'' \<and>
   render (fetchProducts (Inr [chair]) mounted) = Loaded [chair] \<and>
   render (fetchProducts_settle (Inr [chair])
      (fetchProducts_settle (Inl ''timeout'') (fetchProducts_begin mounted)))
     \<noteq> render (fetchProducts (Inr [chair]) mounted)"
  by (simp add: mounted_def render_def fetchProducts_def fetchProducts_begin_def
      fetchProducts_settle_def)

end
